theory Spec2Isabelle
  imports Main "HOL-Library.Sublist"
begin

section \<open>Python values, exceptions and the external collaborators\<close>

text \<open>
  The handler of \<^verbatim>\<open>src/lambda/handler.py\<close> works on values that come out of a JSON
  decoder: the Lambda event and the decoded request body. They are modelled by one
  datatype of Python values. A \<^verbatim>\<open>dict\<close> is an association list read with \<open>map_of\<close>;
  the order of the list is the insertion order of the dict. A float is carried as its
  literal text, the handler never looks inside one. A Python \<^verbatim>\<open>str\<close> is a \<open>string\<close>.
\<close>

datatype pyval =
    PNone
  | PBool bool
  | PInt int
  | PFloat string
  | PStr string
  | PList "pyval list"
  | PDict "(string \<times> pyval) list"

text \<open>
  An instance of \<^verbatim>\<open>Exception\<close> is its class name and the text that \<^verbatim>\<open>str(e)\<close> gives.
  What a call can raise is wider: \<^verbatim>\<open>SystemExit\<close>, \<^verbatim>\<open>KeyboardInterrupt\<close> and
  \<^verbatim>\<open>GeneratorExit\<close> derive from \<^verbatim>\<open>BaseException\<close> and not from \<^verbatim>\<open>Exception\<close>, so an
  \<^verbatim>\<open>except Exception\<close> clause does not catch them.
\<close>

datatype py_exception = PyExc (exc_class: string) (exc_text: string)

datatype py_raised =
    IsException py_exception
  | NotException (base_class: string) (base_text: string)

fun type_name :: "pyval \<Rightarrow> string" where
  "type_name PNone = ''NoneType''"
| "type_name (PBool _) = ''bool''"
| "type_name (PInt _) = ''int''"
| "type_name (PFloat _) = ''float''"
| "type_name (PStr _) = ''str''"
| "type_name (PList _) = ''list''"
| "type_name (PDict _) = ''dict''"

definition attribute_error :: "pyval \<Rightarrow> string \<Rightarrow> py_exception" where
  "attribute_error v attr =
     PyExc ''AttributeError''
       ([CHR 0x27] @ type_name v @ [CHR 0x27] @ '' object has no attribute '' @
        [CHR 0x27] @ attr @ [CHR 0x27])"

text \<open>\<^verbatim>\<open>x.get(k, d)\<close>: only a dict has the method; every other value raises AttributeError.\<close>

fun py_get :: "pyval \<Rightarrow> string \<Rightarrow> pyval \<Rightarrow> py_exception + pyval" where
  "py_get (PDict kvs) k d = Inr (case map_of kvs k of None \<Rightarrow> d | Some v \<Rightarrow> v)"
| "py_get v k d = Inl (attribute_error v ''get'')"

record config =
  region :: string
  bucket_name :: string
  expire_seconds :: int

record presign_call =
  client_method :: string
  param_bucket :: string
  param_key :: string
  param_content_type :: string
  expires_in :: int
  http_method :: string

text \<open>
  What one invocation takes from outside the repository: the JSON decoder and encoder of
  the standard library, the clock (\<^verbatim>\<open>int(time.time())\<close>), the text of a fresh
  \<^verbatim>\<open>uuid.uuid4()\<close>, the order in which the set literal \<^verbatim>\<open>allowed_types\<close> is
  iterated (it depends on the hash seed of the process) and the signing call of the S3
  client. A decoder or signer that raises returns \<open>Inl\<close>. On a text, \<^verbatim>\<open>json.loads\<close> fails
  with \<^verbatim>\<open>JSONDecodeError\<close> or \<^verbatim>\<open>RecursionError\<close>, both instances of \<^verbatim>\<open>Exception\<close>; the
  signing call stands for the storage backend, and what it raises is not restricted.
\<close>

record world =
  json_loads :: "string \<Rightarrow> py_exception + pyval"
  json_dumps :: "pyval \<Rightarrow> string"
  time_now :: int
  uuid4_str :: string
  allowed_iter :: "string list"
  generate_presigned_url :: "presign_call \<Rightarrow> py_raised + string"

record response =
  statusCode :: int
  headers :: "(string \<times> string) list"
  body :: string

text \<open>
  The result of an invocation: its outcome, which is the response returned to the runtime
  (\<open>Inr\<close>) or the exception that left the handler (\<open>Inl\<close>), the signing calls made on the
  way and the lines printed to the log.
\<close>

record invocation =
  outcome :: "py_raised + response"
  presign_calls :: "presign_call list"
  printed :: "string list"

section \<open>Configuration read at import time\<close>

text \<open>
  Lines 9 to 13, in the order of the module. \<^verbatim>\<open>os.environ['REGION']\<close> raises KeyError
  when the variable is absent; \<^verbatim>\<open>boto3.client('s3', region_name=...)\<close> is then called
  with its value and may itself raise (it validates the region name), before
  \<^verbatim>\<open>BUCKET_NAME\<close> is read; \<^verbatim>\<open>os.environ['BUCKET_NAME']\<close> raises KeyError when absent;
  \<^verbatim>\<open>int(os.getenv('SIGNED_URL_EXPIRE', 120))\<close> is \<open>120\<close> when the variable is absent and
  \<^verbatim>\<open>int\<close> of its text otherwise. The creation of the client and the conversion of a text
  to an integer are the library's, taken as the parameters \<open>boto3_client\<close> and \<open>py_int\<close>.
\<close>

definition key_error :: "string \<Rightarrow> py_exception" where
  "key_error k = PyExc ''KeyError'' ([CHR 0x27] @ k @ [CHR 0x27])"

definition load_config ::
  "(string \<Rightarrow> py_exception + unit) \<Rightarrow> (string \<Rightarrow> py_exception + int) \<Rightarrow>
   (string \<rightharpoonup> string) \<Rightarrow> py_exception + config" where
  "load_config boto3_client py_int environ =
     (case environ ''REGION'' of
        None \<Rightarrow> Inl (key_error ''REGION'')
      | Some r \<Rightarrow>
     (case boto3_client r of
        Inl e \<Rightarrow> Inl e
      | Inr s3_client \<Rightarrow>
     (case environ ''BUCKET_NAME'' of
        None \<Rightarrow> Inl (key_error ''BUCKET_NAME'')
      | Some b \<Rightarrow>
     (case (case environ ''SIGNED_URL_EXPIRE'' of None \<Rightarrow> Inr 120 | Some s \<Rightarrow> py_int s) of
        Inl e \<Rightarrow> Inl e
      | Inr n \<Rightarrow> Inr \<lparr>region = r, bucket_name = b, expire_seconds = n\<rparr>))))"

section \<open>String helpers\<close>

text \<open>\<^verbatim>\<open>str(n)\<close> for an integer: decimal digits, with a minus sign below zero.\<close>

definition digit_char :: "nat \<Rightarrow> char" where
  "digit_char d = ''0123456789'' ! d"

function digits_nat :: "nat \<Rightarrow> string" where
  "digits_nat n = (if n < 10 then [digit_char n] else digits_nat (n div 10) @ [digit_char (n mod 10)])"
  by pat_completeness auto
termination
  by (relation "measure (\<lambda>n. n)") auto

declare digits_nat.simps [simp del]

definition py_str_int :: "int \<Rightarrow> string" where
  "py_str_int i = (if i < 0 then CHR ''-'' # digits_nat (nat (- i)) else digits_nat (nat i))"

text \<open>\<^verbatim>\<open>s.split(c)\<close> for a one-character separator: never empty, so \<^verbatim>\<open>[-1]\<close> is \<open>last\<close>.\<close>

fun py_split :: "char \<Rightarrow> string \<Rightarrow> string list" where
  "py_split c [] = [[]]"
| "py_split c (x # xs) =
     (if x = c then [] # py_split c xs
      else (case py_split c xs of [] \<Rightarrow> [[x]] | y # ys \<Rightarrow> (x # y) # ys))"

text \<open>\<^verbatim>\<open>sep.join(xs)\<close>.\<close>

fun py_join :: "string \<Rightarrow> string list \<Rightarrow> string" where
  "py_join sep [] = []"
| "py_join sep [x] = x"
| "py_join sep (x # y # ys) = x @ sep @ py_join sep (y # ys)"

section \<open>The handler\<close>

definition cors_headers :: "(string \<times> string) list" where
  "cors_headers =
     [(''Access-Control-Allow-Origin'', ''*''),
      (''Access-Control-Allow-Headers'', ''Content-Type'')]"

definition allowed_types :: "string set" where
  "allowed_types = {''image/jpeg'', ''image/png'', ''image/gif'', ''image/webp''}"

definition invalid_content_type_msg :: string where
  \<open>invalid_content_type_msg = ''Invalid contentType. Must start with "image/".''\<close>

definition internal_error_msg :: string where
  "internal_error_msg = ''Internal server error. Failed to generate upload URL.''"

definition unsupported_msg :: "world \<Rightarrow> string \<Rightarrow> string" where
  "unsupported_msg w content_type =
     ''Unsupported image type: '' @ content_type @ ''. Allowed: '' @
     py_join '', '' (allowed_iter w)"

definition error_reply :: "world \<Rightarrow> int \<Rightarrow> string \<Rightarrow> response" where
  "error_reply w code msg =
     \<lparr>statusCode = code, headers = cors_headers,
      body = json_dumps w (PDict [(''error'', PStr msg)])\<rparr>"

text \<open>\<^verbatim>\<open>json.loads(x)\<close>: a value that is not a text raises TypeError before any decoding.\<close>

definition py_json_loads :: "world \<Rightarrow> pyval \<Rightarrow> py_exception + pyval" where
  "py_json_loads w x =
     (case x of
        PStr s \<Rightarrow> json_loads w s
      | _ \<Rightarrow> Inl (PyExc ''TypeError''
                 (''the JSON object must be str, bytes or bytearray, not '' @ type_name x)))"

text \<open>Line 58: \<^verbatim>\<open>f"uploads/{timestamp}-{random_suffix}.{ext}"\<close>.\<close>

definition key_format :: "int \<Rightarrow> string \<Rightarrow> string \<Rightarrow> string" where
  "key_format timestamp random_suffix ext =
     ''uploads/'' @ py_str_int timestamp @ ''-'' @ random_suffix @ ''.'' @ ext"

text \<open>Lines 55 to 58: the key derived for a content type in the world of one invocation.\<close>

definition derive_key :: "world \<Rightarrow> string \<Rightarrow> string" where
  "derive_key w content_type =
     (let timestamp = time_now w;
          random_suffix = take 6 (uuid4_str w);
          ext = last (py_split CHR ''/'' content_type)
      in key_format timestamp random_suffix ext)"

text \<open>
  Lines 61 to 70: the arguments of \<^verbatim>\<open>s3_client.generate_presigned_url\<close> for a content
  type.
\<close>

definition presign_request :: "config \<Rightarrow> world \<Rightarrow> string \<Rightarrow> presign_call" where
  "presign_request cfg w content_type =
     \<lparr>client_method = ''put_object'',
      param_bucket = bucket_name cfg,
      param_key = derive_key w content_type,
      param_content_type = content_type,
      expires_in = expire_seconds cfg,
      http_method = ''PUT''\<rparr>"

text \<open>
  The body of the \<^verbatim>\<open>try\<close> (lines 22 to 83): the signing calls made, and either the
  exception that left the block or the response it returned.
\<close>

definition try_block ::
  "config \<Rightarrow> world \<Rightarrow> pyval \<Rightarrow> presign_call list \<times> (py_raised + response)" where
  "try_block cfg w event =
    (case py_get event ''body'' (PStr ''{}'') of
       Inl e \<Rightarrow> ([], Inl (IsException e))
     | Inr raw \<Rightarrow>
    (case py_json_loads w raw of
       Inl e \<Rightarrow> ([], Inl (IsException e))
     | Inr parsed \<Rightarrow>
    (case py_get parsed ''contentType'' (PStr '''') of
       Inl e \<Rightarrow> ([], Inl (IsException e))
     | Inr content_type \<Rightarrow>
    (case py_get parsed ''fileName'' (PStr '''') of
       Inl e \<Rightarrow> ([], Inl (IsException e))
     | Inr file_name \<Rightarrow>
    (case content_type of
       PStr ct \<Rightarrow>
         if \<not> prefix ''image/'' ct then
           ([], Inr (error_reply w 400 invalid_content_type_msg))
         else if ct \<notin> allowed_types then
           ([], Inr (error_reply w 400 (unsupported_msg w ct)))
         else
           (let object_key = derive_key w ct;
                call = presign_request cfg w ct
            in case generate_presigned_url w call of
                 Inl raised \<Rightarrow> ([call], Inl raised)
               | Inr presigned_url \<Rightarrow>
                   ([call],
                    Inr \<lparr>statusCode = 200, headers = cors_headers,
                         body = json_dumps w
                                  (PDict [(''url'', PStr presigned_url),
                                          (''key'', PStr object_key)])\<rparr>))
     | _ \<Rightarrow> ([], Inl (IsException (attribute_error content_type ''startswith''))))))))"

text \<open>
  \<^verbatim>\<open>lambda_handler\<close>: the \<^verbatim>\<open>except Exception\<close> clause (lines 85 to 97) catches an
  instance of \<^verbatim>\<open>Exception\<close>, prints its text and returns the fixed 500 response. Anything
  else raised in the \<^verbatim>\<open>try\<close> is not caught: it leaves the handler, and nothing is printed.
\<close>

definition lambda_handler :: "config \<Rightarrow> world \<Rightarrow> pyval \<Rightarrow> invocation" where
  "lambda_handler cfg w event =
     (case try_block cfg w event of
        (cs, Inr r) \<Rightarrow> \<lparr>outcome = Inr r, presign_calls = cs, printed = []\<rparr>
      | (cs, Inl (IsException e)) \<Rightarrow>
          \<lparr>outcome = Inr (error_reply w 500 internal_error_msg),
           presign_calls = cs,
           printed = [''Error generating presigned URL: '' @ exc_text e]\<rparr>
      | (cs, Inl (NotException c t)) \<Rightarrow>
          \<lparr>outcome = Inl (NotException c t), presign_calls = cs, printed = []\<rparr>)"

section \<open>Character classes and the shape of a UUID text\<close>






section \<open>A concrete world for evaluating the handler\<close>

text \<open>
  The theorems below hold for every decoder, encoder, clock, UUID and signer. To run the
  handler on concrete events, this section fixes one of each: a decoder given by a table
  of request bodies (any other text raises, as \<^verbatim>\<open>json.loads\<close> does on a text that is
  not JSON), the encoder of \<^verbatim>\<open>json.dumps\<close> with its default separators and ASCII
  escapes, and a signer that builds a URL from its arguments.
\<close>

definition table_lookup ::
  "(string \<times> 'a) list \<Rightarrow> py_exception \<Rightarrow> string \<Rightarrow> py_exception + 'a" where
  "table_lookup tab e s = (case map_of tab s of Some v \<Rightarrow> Inr v | None \<Rightarrow> Inl e)"

definition demo_bodies :: "(string \<times> pyval) list" where
  \<open>demo_bodies =
     [(''{}'', PDict []),
      (''{"contentType": "image/png"}'', PDict [(''contentType'', PStr ''image/png'')]),
      (''{"contentType": "image/png", "fileName": "cat.png"}'',
         PDict [(''contentType'', PStr ''image/png''), (''fileName'', PStr ''cat.png'')]),
      (''{"contentType": "image/bmp"}'', PDict [(''contentType'', PStr ''image/bmp'')]),
      (''{"contentType": "text/plain"}'', PDict [(''contentType'', PStr ''text/plain'')]),
      (''{"contentType": 5}'', PDict [(''contentType'', PInt 5)])]\<close>

definition decode_error :: py_exception where
  "decode_error = PyExc ''JSONDecodeError'' ''Expecting value: line 1 column 1 (char 0)''"

definition hex_char :: "nat \<Rightarrow> char" where
  "hex_char d = ''0123456789abcdef'' ! d"

definition json_escape :: "char \<Rightarrow> string" where
  "json_escape c =
     (if c = CHR 0x22 then [CHR 0x5C, CHR 0x22]
      else if c = CHR 0x5C then [CHR 0x5C, CHR 0x5C]
      else if c = CHR 0x0A then [CHR 0x5C, CHR ''n'']
      else if c = CHR 0x0D then [CHR 0x5C, CHR ''r'']
      else if c = CHR 0x09 then [CHR 0x5C, CHR ''t'']
      else if c = CHR 0x08 then [CHR 0x5C, CHR ''b'']
      else if c = CHR 0x0C then [CHR 0x5C, CHR ''f'']
      else if of_char c < (0x20::nat) \<or> (0x7E::nat) < of_char c then
        [CHR 0x5C, CHR ''u'', CHR ''0'', CHR ''0'',
         hex_char (of_char c div 16), hex_char (of_char c mod 16)]
      else [c])"

definition dumps_str :: "string \<Rightarrow> string" where
  "dumps_str s = [CHR 0x22] @ concat (map json_escape s) @ [CHR 0x22]"

fun ascii_dumps :: "pyval \<Rightarrow> string" where
  "ascii_dumps PNone = ''null''"
| "ascii_dumps (PBool b) = (if b then ''true'' else ''false'')"
| "ascii_dumps (PInt i) = py_str_int i"
| "ascii_dumps (PFloat lit) = lit"
| "ascii_dumps (PStr s) = dumps_str s"
| "ascii_dumps (PList xs) = ''['' @ py_join '', '' (map ascii_dumps xs) @ '']''"
| "ascii_dumps (PDict kvs) =
     ''{'' @ py_join '', '' (map (\<lambda>(k, v). dumps_str k @ '': '' @ ascii_dumps v) kvs) @ ''}''"

definition demo_sign :: "presign_call \<Rightarrow> py_raised + string" where
  "demo_sign call =
     Inr (''https://'' @ param_bucket call @ ''.s3.amazonaws.com/'' @ param_key call @
          ''?X-Amz-Expires='' @ py_str_int (expires_in call))"




definition demo_world :: world where
  "demo_world =
     \<lparr>json_loads = table_lookup demo_bodies decode_error,
      json_dumps = ascii_dumps,
      time_now = 1700000000,
      uuid4_str = ''3f2a9c1e-7b4d-4e2a-9c1f-5a6b7c8d9e0f'',
      allowed_iter = [''image/png'', ''image/webp'', ''image/jpeg'', ''image/gif''],
      generate_presigned_url = demo_sign\<rparr>"





text \<open>
  Two environments, without and with \<^verbatim>\<open>SIGNED_URL_EXPIRE\<close>, a client constructor that
  accepts one region, and an integer conversion given by a table.
\<close>

definition demo_environ :: "string \<rightharpoonup> string" where
  "demo_environ = [''REGION'' \<mapsto> ''eu-west-1'', ''BUCKET_NAME'' \<mapsto> ''upload-bucket'']"

definition demo_environ_expire :: "string \<rightharpoonup> string" where
  "demo_environ_expire =
     [''REGION'' \<mapsto> ''eu-west-1'', ''BUCKET_NAME'' \<mapsto> ''upload-bucket'',
      ''SIGNED_URL_EXPIRE'' \<mapsto> ''300'']"

definition demo_client :: "string \<Rightarrow> py_exception + unit" where
  "demo_client =
     table_lookup [(''eu-west-1'', ())]
       (PyExc ''InvalidRegionError'' ''Provided region_name does not appear to be valid'')"

definition demo_int :: "string \<Rightarrow> py_exception + int" where
  "demo_int =
     table_lookup [(''300'', 300)]
       (PyExc ''ValueError'' ''invalid literal for int() with base 10'')"

definition demo_config :: config where
  "demo_config = \<lparr>region = ''eu-west-1'', bucket_name = ''upload-bucket'', expire_seconds = 120\<rparr>"

definition demo_config_expire :: config where
  "demo_config_expire =
     \<lparr>region = ''eu-west-1'', bucket_name = ''upload-bucket'', expire_seconds = 300\<rparr>"

definition body_event :: "string \<Rightarrow> pyval" where
  "body_event s = PDict [(''httpMethod'', PStr ''POST''), (''body'', PStr s)]"

section \<open>Facts about the helpers\<close>





lemma sublist_py_join: "t \<in> set xs \<Longrightarrow> sublist t (py_join sep xs)"
proof (induction sep xs rule: py_join.induct)
  case (1 sep)
  then show ?case by simp
next
  case (2 sep x)
  then show ?case by simp
next
  case (3 sep x y ys)
  show ?case
  proof (cases "t = x")
    case True
    then show ?thesis by simp
  next
    case False
    with 3 have "sublist t (py_join sep (y # ys))" by simp
    then obtain p s where "py_join sep (y # ys) = p @ t @ s" by (auto simp: sublist_def)
    then have "py_join sep (x # y # ys) = (x @ sep @ p) @ t @ s" by simp
    then show ?thesis unfolding sublist_def by blast
  qed
qed






lemma allowed_prefix: "c \<in> allowed_types \<Longrightarrow> prefix ''image/'' c"
  by (auto simp: allowed_types_def)

lemma try_block_text:
  assumes "py_get event ''body'' (PStr ''{}'') = Inr (PStr s)"
    and "json_loads w s = Inr (PDict d)"
    and "py_get (PDict d) ''contentType'' (PStr '''') = Inr (PStr ct)"
  shows "try_block cfg w event =
    (if \<not> prefix ''image/'' ct then ([], Inr (error_reply w 400 invalid_content_type_msg))
     else if ct \<notin> allowed_types then ([], Inr (error_reply w 400 (unsupported_msg w ct)))
     else
       (case generate_presigned_url w (presign_request cfg w ct) of
          Inl raised \<Rightarrow> ([presign_request cfg w ct], Inl raised)
        | Inr presigned_url \<Rightarrow>
            ([presign_request cfg w ct],
             Inr \<lparr>statusCode = 200, headers = cors_headers,
                  body = json_dumps w (PDict [(''url'', PStr presigned_url),
                                              (''key'', PStr (derive_key w ct))])\<rparr>)))"
  using assms by (simp add: try_block_def py_json_loads_def Let_def)

lemma try_block_headers: "try_block cfg w event = (cs, Inr r) \<Longrightarrow> headers r = cors_headers"
  by (auto simp: try_block_def error_reply_def Let_def
      split: sum.splits pyval.splits if_splits)

section \<open>Evaluations in the concrete world\<close>

lemma demo_str: "py_str_int 1700000000 = ''1700000000''"
  by (simp add: py_str_int_def digits_nat.simps digit_char_def)

lemma demo_key: "derive_key demo_world ''image/png'' = ''uploads/1700000000-3f2a9c.png''"
  by (simp add: derive_key_def key_format_def demo_world_def demo_str)

lemma demo_loads_simps:
  \<open>json_loads demo_world ''not json'' = Inl decode_error\<close>
  \<open>json_loads demo_world ''{}'' = Inr (PDict [])\<close>
  \<open>json_loads demo_world ''{"contentType": "image/png"}'' =
     Inr (PDict [(''contentType'', PStr ''image/png'')])\<close>
  \<open>json_loads demo_world ''{"contentType": "image/png", "fileName": "cat.png"}'' =
     Inr (PDict [(''contentType'', PStr ''image/png''), (''fileName'', PStr ''cat.png'')])\<close>
  \<open>json_loads demo_world ''{"contentType": "image/bmp"}'' =
     Inr (PDict [(''contentType'', PStr ''image/bmp'')])\<close>
  \<open>json_loads demo_world ''{"contentType": "text/plain"}'' =
     Inr (PDict [(''contentType'', PStr ''text/plain'')])\<close>
  \<open>json_loads demo_world ''{"contentType": 5}'' = Inr (PDict [(''contentType'', PInt 5)])\<close>
  by (simp_all add: demo_world_def table_lookup_def demo_bodies_def)

lemma body_event_get: "py_get (body_event s) ''body'' d = Inr (PStr s)"
  by (simp add: body_event_def)

lemma demo_dumps_invalid:
  \<open>json_dumps demo_world (PDict [(''error'', PStr invalid_content_type_msg)]) =
     ''{"error": "Invalid contentType. Must start with '' @ [CHR 0x5C] @ ''"image/'' @
     [CHR 0x5C] @ ''"."}''\<close>
  by (simp add: demo_world_def invalid_content_type_msg_def dumps_str_def json_escape_def)

lemma demo_dumps_internal:
  \<open>json_dumps demo_world (PDict [(''error'', PStr internal_error_msg)]) =
     ''{"error": "Internal server error. Failed to generate upload URL."}''\<close>
  by (simp add: demo_world_def internal_error_msg_def dumps_str_def json_escape_def)

section \<open>Missing and malformed bodies\<close>

text \<open>
  Claim C1, as the code has it. An event with no \<^verbatim>\<open>body\<close> key is handled exactly as an
  event whose body is the text \<^verbatim>\<open>{}\<close>: \<^verbatim>\<open>event.get('body', '{}')\<close> yields that text,
  \<^verbatim>\<open>contentType\<close> is absent and the response is the 400 rejection for an invalid content
  type. A body that is present but is not JSON is different: \<^verbatim>\<open>json.loads\<close> raises inside
  the \<^verbatim>\<open>try\<close> and the response is the generic 500.
\<close>

theorem absent_body_as_empty_object:
  "(map_of ev ''body'' = None \<longrightarrow>
      lambda_handler cfg w (PDict ev) =
        lambda_handler cfg w (PDict ((''body'', PStr ''{}'') # ev)) \<and>
      (json_loads w ''{}'' = Inr (PDict []) \<longrightarrow>
        outcome (lambda_handler cfg w (PDict ev)) =
          Inr \<lparr>statusCode = 400, headers = cors_headers,
           body = json_dumps w (PDict [(''error'', PStr invalid_content_type_msg)])\<rparr>)) \<and>
   (py_get event ''body'' (PStr ''{}'') = Inr (PStr s) \<and> json_loads w s = Inl e \<longrightarrow>
      outcome (lambda_handler cfg w event) =
        Inr \<lparr>statusCode = 500, headers = cors_headers,
         body = json_dumps w (PDict [(''error'', PStr internal_error_msg)])\<rparr>)"
  by (simp add: lambda_handler_def try_block_def py_json_loads_def error_reply_def)

theorem absent_body_as_empty_object_witness:
  \<open>map_of [(''httpMethod'', PStr ''POST'')] ''body'' = None \<and>
   json_loads demo_world ''{}'' = Inr (PDict []) \<and>
   py_get (body_event ''not json'') ''body'' (PStr ''{}'') = Inr (PStr ''not json'') \<and>
   json_loads demo_world ''not json'' = Inl decode_error \<and>
   lambda_handler demo_config demo_world (PDict [(''httpMethod'', PStr ''POST'')]) =
     lambda_handler demo_config demo_world
       (PDict [(''body'', PStr ''{}''), (''httpMethod'', PStr ''POST'')]) \<and>
   outcome (lambda_handler demo_config demo_world (PDict [(''httpMethod'', PStr ''POST'')])) =
     Inr \<lparr>statusCode = 400, headers = cors_headers,
      body = ''{"error": "Invalid contentType. Must start with '' @ [CHR 0x5C] @ ''"image/'' @
             [CHR 0x5C] @ ''"."}''\<rparr> \<and>
   outcome (lambda_handler demo_config demo_world (body_event ''not json'')) =
     Inr \<lparr>statusCode = 500, headers = cors_headers,
      body = ''{"error": "Internal server error. Failed to generate upload URL."}''\<rparr>\<close>
  using absent_body_as_empty_object
    [of "[(''httpMethod'', PStr ''POST'')]" demo_config demo_world "body_event ''not json''"
        "''not json''" decode_error]
  by (auto simp add: body_event_get demo_loads_simps demo_dumps_invalid demo_dumps_internal)

text \<open>
  The claim as it was stated fails on a body that is not JSON: the status is 500 there,
  while the body \<^verbatim>\<open>{}\<close> gives 400.
\<close>

theorem malformed_body_counterexample:
  \<open>json_loads demo_world ''not json'' = Inl decode_error \<and>
   outcome (lambda_handler demo_config demo_world (body_event ''not json'')) =
     Inr \<lparr>statusCode = 500, headers = cors_headers,
          body = ''{"error": "Internal server error. Failed to generate upload URL."}''\<rparr> \<and>
   outcome (lambda_handler demo_config demo_world (body_event ''{}'')) =
     Inr \<lparr>statusCode = 400, headers = cors_headers,
          body = ''{"error": "Invalid contentType. Must start with '' @ [CHR 0x5C] @ ''"image/'' @
                 [CHR 0x5C] @ ''"."}''\<rparr>\<close>
  by (simp add: lambda_handler_def try_block_def py_json_loads_def body_event_get
      demo_loads_simps error_reply_def demo_dumps_invalid demo_dumps_internal)

section \<open>Validation of the content type\<close>

text \<open>
  Claim C2. When the body decodes to an object whose \<^verbatim>\<open>contentType\<close> is a text that does
  not start with \<^verbatim>\<open>image/\<close> (an absent \<^verbatim>\<open>contentType\<close> reads as the empty text), the
  handler returns status 400 with the body
  \<^verbatim>\<open>{"error": "Invalid contentType. Must start with \"image/\"."}\<close>.
\<close>

theorem invalid_content_type_rejected:
  assumes "py_get event ''body'' (PStr ''{}'') = Inr (PStr s)"
    and "json_loads w s = Inr (PDict d)"
    and "py_get (PDict d) ''contentType'' (PStr '''') = Inr (PStr c)"
    and "\<not> prefix ''image/'' c"
  shows "outcome (lambda_handler cfg w event) =
           Inr \<lparr>statusCode = 400, headers = cors_headers,
            body = json_dumps w (PDict [(''error'', PStr invalid_content_type_msg)])\<rparr>"
  using assms by (simp add: lambda_handler_def try_block_text [OF assms(1-3)] error_reply_def)

theorem invalid_content_type_rejected_witness:
  \<open>py_get (body_event ''{"contentType": "text/plain"}'') ''body'' (PStr ''{}'') =
     Inr (PStr ''{"contentType": "text/plain"}'') \<and>
   json_loads demo_world ''{"contentType": "text/plain"}'' =
     Inr (PDict [(''contentType'', PStr ''text/plain'')]) \<and>
   py_get (PDict [(''contentType'', PStr ''text/plain'')]) ''contentType'' (PStr '''') =
     Inr (PStr ''text/plain'') \<and>
   \<not> prefix ''image/'' ''text/plain'' \<and>
   outcome (lambda_handler demo_config demo_world
               (body_event ''{"contentType": "text/plain"}'')) =
     Inr \<lparr>statusCode = 400, headers = cors_headers,
      body = ''{"error": "Invalid contentType. Must start with '' @ [CHR 0x5C] @ ''"image/'' @
             [CHR 0x5C] @ ''"."}''\<rparr>\<close>
  using invalid_content_type_rejected
    [of \<open>body_event ''{"contentType": "text/plain"}''\<close> \<open>''{"contentType": "text/plain"}''\<close>
        demo_world "[(''contentType'', PStr ''text/plain'')]" "''text/plain''" demo_config]
  by (auto simp add: body_event_get demo_loads_simps demo_dumps_invalid)

text \<open>
  Claim C10. When the body decodes to an object whose \<^verbatim>\<open>contentType\<close> is present but is
  not a text (a number, null, a boolean, an array or an object), \<^verbatim>\<open>startswith\<close> raises
  AttributeError and the handler returns the generic 500 response, not a 400 rejection.
\<close>

theorem non_string_content_type_is_500:
  assumes "py_get event ''body'' (PStr ''{}'') = Inr (PStr s)"
    and "json_loads w s = Inr (PDict d)"
    and "map_of d ''contentType'' = Some v"
    and "type_name v \<noteq> ''str''"
  shows "outcome (lambda_handler cfg w event) =
           Inr \<lparr>statusCode = 500, headers = cors_headers,
            body = json_dumps w (PDict [(''error'', PStr internal_error_msg)])\<rparr>"
  using assms
  by (cases v) (simp_all add: lambda_handler_def try_block_def py_json_loads_def error_reply_def)

theorem non_string_content_type_is_500_witness:
  \<open>py_get (body_event ''{"contentType": 5}'') ''body'' (PStr ''{}'') =
     Inr (PStr ''{"contentType": 5}'') \<and>
   json_loads demo_world ''{"contentType": 5}'' = Inr (PDict [(''contentType'', PInt 5)]) \<and>
   map_of [(''contentType'', PInt 5)] ''contentType'' = Some (PInt 5) \<and>
   type_name (PInt 5) \<noteq> ''str'' \<and>
   outcome (lambda_handler demo_config demo_world (body_event ''{"contentType": 5}'')) =
     Inr \<lparr>statusCode = 500, headers = cors_headers,
      body = ''{"error": "Internal server error. Failed to generate upload URL."}''\<rparr>\<close>
  using non_string_content_type_is_500
    [of \<open>body_event ''{"contentType": 5}''\<close> \<open>''{"contentType": 5}''\<close>
        demo_world "[(''contentType'', PInt 5)]" "PInt 5" demo_config]
  by (auto simp add: body_event_get demo_loads_simps demo_dumps_internal)

section \<open>Unsupported image types\<close>

lemma demo_msg_bmp:
  "unsupported_msg demo_world ''image/bmp'' =
     ''Unsupported image type: image/bmp. Allowed: image/png, image/webp, image/jpeg, image/gif''"
  by (simp add: unsupported_msg_def demo_world_def)

lemma demo_dumps_bmp:
  \<open>json_dumps demo_world (PDict [(''error'', PStr (unsupported_msg demo_world ''image/bmp''))]) =
     ''{"error": "Unsupported image type: image/bmp. Allowed: image/png, image/webp, image/jpeg, image/gif"}''\<close>
  by (simp add: demo_msg_bmp) (simp add: demo_world_def dumps_str_def json_escape_def)

lemma demo_allowed_iter: "set (allowed_iter demo_world) = allowed_types"
  by (auto simp add: demo_world_def allowed_types_def)

text \<open>
  Claim C3. When \<^verbatim>\<open>contentType\<close> is a text that starts with \<^verbatim>\<open>image/\<close> but is not one of
  \<^verbatim>\<open>image/jpeg\<close>, \<^verbatim>\<open>image/png\<close>, \<^verbatim>\<open>image/gif\<close> and \<^verbatim>\<open>image/webp\<close>, the handler returns
  status 400 with an error message that contains the rejected content type and every
  allowed type. The order of the allowed types in the message is the order in which the
  set is iterated; iterating a set visits exactly its elements.
\<close>

theorem unsupported_image_type_rejected:
  assumes "py_get event ''body'' (PStr ''{}'') = Inr (PStr s)"
    and "json_loads w s = Inr (PDict d)"
    and "py_get (PDict d) ''contentType'' (PStr '''') = Inr (PStr c)"
    and "prefix ''image/'' c"
    and "c \<notin> allowed_types"
    and "set (allowed_iter w) = allowed_types"
  shows "outcome (lambda_handler cfg w event) =
           Inr \<lparr>statusCode = 400, headers = cors_headers,
            body = json_dumps w (PDict [(''error'', PStr (unsupported_msg w c))])\<rparr> \<and>
         sublist c (unsupported_msg w c) \<and>
         (\<forall>t \<in> allowed_types. sublist t (unsupported_msg w c))"
proof -
  have r: "outcome (lambda_handler cfg w event) =
           Inr \<lparr>statusCode = 400, headers = cors_headers,
            body = json_dumps w (PDict [(''error'', PStr (unsupported_msg w c))])\<rparr>"
    using assms(4,5) by (simp add: lambda_handler_def try_block_text [OF assms(1-3)] error_reply_def)
  have c: "sublist c (unsupported_msg w c)"
    unfolding unsupported_msg_def by (rule sublist_appendI)
  have a: "sublist t (unsupported_msg w c)" if "t \<in> allowed_types" for t
  proof -
    from that assms(6) have "sublist t (py_join '', '' (allowed_iter w))"
      by (simp add: sublist_py_join)
    then obtain p q where "py_join '', '' (allowed_iter w) = p @ t @ q"
      by (auto simp: sublist_def)
    then have "unsupported_msg w c = (''Unsupported image type: '' @ c @ ''. Allowed: '' @ p) @ t @ q"
      by (simp add: unsupported_msg_def)
    then show ?thesis unfolding sublist_def by blast
  qed
  from r c a show ?thesis by blast
qed

theorem unsupported_image_type_rejected_witness:
  \<open>py_get (body_event ''{"contentType": "image/bmp"}'') ''body'' (PStr ''{}'') =
     Inr (PStr ''{"contentType": "image/bmp"}'') \<and>
   json_loads demo_world ''{"contentType": "image/bmp"}'' =
     Inr (PDict [(''contentType'', PStr ''image/bmp'')]) \<and>
   prefix ''image/'' ''image/bmp'' \<and> ''image/bmp'' \<notin> allowed_types \<and>
   set (allowed_iter demo_world) = allowed_types \<and>
   outcome (lambda_handler demo_config demo_world
               (body_event ''{"contentType": "image/bmp"}'')) =
     Inr \<lparr>statusCode = 400, headers = cors_headers,
      body = ''{"error": "Unsupported image type: image/bmp. Allowed: image/png, image/webp, image/jpeg, image/gif"}''\<rparr> \<and>
   sublist ''image/bmp'' (unsupported_msg demo_world ''image/bmp'') \<and>
   sublist ''image/jpeg'' (unsupported_msg demo_world ''image/bmp'') \<and>
   sublist ''image/png'' (unsupported_msg demo_world ''image/bmp'') \<and>
   sublist ''image/gif'' (unsupported_msg demo_world ''image/bmp'') \<and>
   sublist ''image/webp'' (unsupported_msg demo_world ''image/bmp'')\<close>
proof -
  have h4: "prefix ''image/'' ''image/bmp''" by simp
  have h5: "''image/bmp'' \<notin> allowed_types" by (simp add: allowed_types_def)
  have mem: "''image/jpeg'' \<in> allowed_types" "''image/png'' \<in> allowed_types"
    "''image/gif'' \<in> allowed_types" "''image/webp'' \<in> allowed_types"
    by (simp_all add: allowed_types_def)
  note t = unsupported_image_type_rejected
    [OF body_event_get demo_loads_simps(5) _ h4 h5 demo_allowed_iter, of demo_config, simplified]
  from t mem h4 h5 show ?thesis
    by (simp add: body_event_get demo_loads_simps demo_allowed_iter demo_dumps_bmp)
qed

section \<open>The success path\<close>





lemma demo_sign_png:
  "generate_presigned_url demo_world (presign_request demo_config demo_world ''image/png'') =
     Inr ''https://upload-bucket.s3.amazonaws.com/uploads/1700000000-3f2a9c.png?X-Amz-Expires=120''"
  by (simp add: presign_request_def demo_key)
    (simp add: demo_world_def demo_sign_def demo_config_def py_str_int_def digits_nat.simps
      digit_char_def)

lemma demo_dumps_png:
  \<open>json_dumps demo_world
     (PDict [(''url'', PStr ''https://upload-bucket.s3.amazonaws.com/uploads/1700000000-3f2a9c.png?X-Amz-Expires=120''),
             (''key'', PStr ''uploads/1700000000-3f2a9c.png'')]) =
   ''{"url": "https://upload-bucket.s3.amazonaws.com/uploads/1700000000-3f2a9c.png?X-Amz-Expires=120", "key": "uploads/1700000000-3f2a9c.png"}''\<close>
  by (simp add: demo_world_def dumps_str_def json_escape_def)

lemma png_get:
  "py_get (PDict [(''contentType'', PStr ''image/png'')]) ''contentType'' (PStr '''') =
     Inr (PStr ''image/png'')"
  by simp

lemma png_allowed: "''image/png'' \<in> allowed_types"
  by (simp add: allowed_types_def)






section \<open>Failures inside the handler\<close>








section \<open>Headers of every response\<close>

lemma demo_outcome_png:
  \<open>outcome (lambda_handler demo_config demo_world
              (body_event ''{"contentType": "image/png"}'')) =
     Inr \<lparr>statusCode = 200, headers = cors_headers,
          body = ''{"url": "https://upload-bucket.s3.amazonaws.com/uploads/1700000000-3f2a9c.png?X-Amz-Expires=120", "key": "uploads/1700000000-3f2a9c.png"}''\<rparr>\<close>
  using png_allowed
  by (simp add: lambda_handler_def
      try_block_text [OF body_event_get demo_loads_simps(3) png_get]
      demo_sign_png demo_key demo_dumps_png)

lemma demo_outcome_plain:
  \<open>outcome (lambda_handler demo_config demo_world
              (body_event ''{"contentType": "text/plain"}'')) =
     Inr \<lparr>statusCode = 400, headers = cors_headers,
          body = ''{"error": "Invalid contentType. Must start with '' @ [CHR 0x5C] @ ''"image/'' @
                 [CHR 0x5C] @ ''"."}''\<rparr>\<close>
  by (simp add: lambda_handler_def try_block_def py_json_loads_def body_event_get
      demo_loads_simps error_reply_def demo_dumps_invalid)

lemma demo_outcome_not_json:
  \<open>outcome (lambda_handler demo_config demo_world (body_event ''not json'')) =
     Inr \<lparr>statusCode = 500, headers = cors_headers,
          body = ''{"error": "Internal server error. Failed to generate upload URL."}''\<rparr>\<close>
  by (simp add: lambda_handler_def try_block_def py_json_loads_def body_event_get
      demo_loads_simps error_reply_def demo_dumps_internal)

text \<open>
  Claim C5. Every response that the handler returns, whatever the event, the decoder and
  the signer do and whatever its status, carries \<^verbatim>\<open>Access-Control-Allow-Origin: *\<close> and
  \<^verbatim>\<open>Access-Control-Allow-Headers: Content-Type\<close>.
\<close>

theorem cors_headers_on_every_response:
  assumes "outcome (lambda_handler cfg w event) = Inr r"
  shows "map_of (headers r) ''Access-Control-Allow-Origin'' = Some ''*'' \<and>
         map_of (headers r) ''Access-Control-Allow-Headers'' = Some ''Content-Type''"
proof -
  obtain cs res where tb: "try_block cfg w event = (cs, res)"
    by (cases "try_block cfg w event")
  have "headers r = cors_headers"
  proof (cases res)
    case (Inr r')
    with tb have "headers r' = cors_headers" by (simp add: try_block_headers)
    with tb Inr assms show ?thesis by (simp add: lambda_handler_def)
  next
    case (Inl raised)
    with tb assms show ?thesis
      by (cases raised) (auto simp: lambda_handler_def error_reply_def)
  qed
  then show ?thesis by (simp add: cors_headers_def)
qed

theorem cors_headers_on_every_response_witness:
  \<open>outcome (lambda_handler demo_config demo_world
              (body_event ''{"contentType": "image/png"}'')) =
     Inr \<lparr>statusCode = 200, headers = cors_headers,
          body = ''{"url": "https://upload-bucket.s3.amazonaws.com/uploads/1700000000-3f2a9c.png?X-Amz-Expires=120", "key": "uploads/1700000000-3f2a9c.png"}''\<rparr> \<and>
   outcome (lambda_handler demo_config demo_world
              (body_event ''{"contentType": "text/plain"}'')) =
     Inr \<lparr>statusCode = 400, headers = cors_headers,
          body = ''{"error": "Invalid contentType. Must start with '' @ [CHR 0x5C] @ ''"image/'' @
                 [CHR 0x5C] @ ''"."}''\<rparr> \<and>
   outcome (lambda_handler demo_config demo_world (body_event ''not json'')) =
     Inr \<lparr>statusCode = 500, headers = cors_headers,
          body = ''{"error": "Internal server error. Failed to generate upload URL."}''\<rparr> \<and>
   map_of cors_headers ''Access-Control-Allow-Origin'' = Some ''*'' \<and>
   map_of cors_headers ''Access-Control-Allow-Headers'' = Some ''Content-Type''\<close>
  using cors_headers_on_every_response [OF demo_outcome_png]
    cors_headers_on_every_response [OF demo_outcome_plain]
    cors_headers_on_every_response [OF demo_outcome_not_json]
    demo_outcome_png demo_outcome_plain demo_outcome_not_json
  by simp

section \<open>The signing call, the object key and the file name\<close>

lemma demo_load_config:
  "load_config demo_client demo_int demo_environ = Inr demo_config"
  "load_config demo_client demo_int demo_environ_expire = Inr demo_config_expire"
  by (simp_all add: load_config_def demo_environ_def demo_environ_expire_def demo_config_def
      demo_config_expire_def demo_client_def demo_int_def table_lookup_def)

text \<open>
  Claim C7. For a request that passes validation the handler makes exactly one signing
  call: \<^verbatim>\<open>put_object\<close> with the configured bucket, the derived object key, the content type
  of the request and the configured expiry in seconds, over HTTP PUT. The bucket is the
  value of \<^verbatim>\<open>BUCKET_NAME\<close>; the expiry is 120 when \<^verbatim>\<open>SIGNED_URL_EXPIRE\<close> is absent and
  \<^verbatim>\<open>int\<close> of its value when it is set.
\<close>

theorem signing_call_arguments:
  assumes "load_config boto3_client py_int environ = Inr cfg"
    and "py_get event ''body'' (PStr ''{}'') = Inr (PStr s)"
    and "json_loads w s = Inr (PDict d)"
    and "py_get (PDict d) ''contentType'' (PStr '''') = Inr (PStr c)"
    and "c \<in> allowed_types"
  shows "presign_calls (lambda_handler cfg w event) =
           [\<lparr>client_method = ''put_object'',
             param_bucket = bucket_name cfg,
             param_key = derive_key w c,
             param_content_type = c,
             expires_in = expire_seconds cfg,
             http_method = ''PUT''\<rparr>] \<and>
         environ ''BUCKET_NAME'' = Some (bucket_name cfg) \<and>
         (environ ''SIGNED_URL_EXPIRE'' = None \<longrightarrow> expire_seconds cfg = 120) \<and>
         (\<forall>v. environ ''SIGNED_URL_EXPIRE'' = Some v \<longrightarrow> py_int v = Inr (expire_seconds cfg)) \<and>
         environ ''REGION'' = Some (region cfg) \<and> boto3_client (region cfg) = Inr ()"
proof -
  from assms(5) have p: "prefix ''image/'' c" by (rule allowed_prefix)
  have calls: "presign_calls (lambda_handler cfg w event) = [presign_request cfg w c]"
  proof (cases "generate_presigned_url w (presign_request cfg w c)")
    case (Inr url)
    with assms(5) p show ?thesis
      by (simp add: lambda_handler_def try_block_text [OF assms(2-4)])
  next
    case (Inl raised)
    with assms(5) p show ?thesis
      by (cases raised) (simp_all add: lambda_handler_def try_block_text [OF assms(2-4)])
  qed
  from assms(1) have "environ ''BUCKET_NAME'' = Some (bucket_name cfg)"
    and "environ ''SIGNED_URL_EXPIRE'' = None \<longrightarrow> expire_seconds cfg = 120"
    and "\<forall>v. environ ''SIGNED_URL_EXPIRE'' = Some v \<longrightarrow> py_int v = Inr (expire_seconds cfg)"
    and "environ ''REGION'' = Some (region cfg)" and "boto3_client (region cfg) = Inr ()"
    by (auto simp: load_config_def split: option.splits sum.splits)
  with calls show ?thesis by (simp add: presign_request_def)
qed

theorem signing_call_arguments_witness:
  \<open>load_config demo_client demo_int demo_environ = Inr demo_config \<and>
   demo_environ ''SIGNED_URL_EXPIRE'' = None \<and>
   load_config demo_client demo_int demo_environ_expire = Inr demo_config_expire \<and>
   demo_environ_expire ''SIGNED_URL_EXPIRE'' = Some ''300'' \<and>
   demo_int ''300'' = Inr 300 \<and>
   py_get (body_event ''{"contentType": "image/png"}'') ''body'' (PStr ''{}'') =
     Inr (PStr ''{"contentType": "image/png"}'') \<and>
   json_loads demo_world ''{"contentType": "image/png"}'' =
     Inr (PDict [(''contentType'', PStr ''image/png'')]) \<and>
   ''image/png'' \<in> allowed_types \<and>
   presign_calls (lambda_handler demo_config demo_world
                    (body_event ''{"contentType": "image/png"}'')) =
     [\<lparr>client_method = ''put_object'',
       param_bucket = ''upload-bucket'',
       param_key = ''uploads/1700000000-3f2a9c.png'',
       param_content_type = ''image/png'',
       expires_in = 120,
       http_method = ''PUT''\<rparr>] \<and>
   presign_calls (lambda_handler demo_config_expire demo_world
                    (body_event ''{"contentType": "image/png"}'')) =
     [\<lparr>client_method = ''put_object'',
       param_bucket = ''upload-bucket'',
       param_key = ''uploads/1700000000-3f2a9c.png'',
       param_content_type = ''image/png'',
       expires_in = 300,
       http_method = ''PUT''\<rparr>]\<close>
proof -
  have absent: "demo_environ ''SIGNED_URL_EXPIRE'' = None" by (simp add: demo_environ_def)
  have present: "demo_environ_expire ''SIGNED_URL_EXPIRE'' = Some ''300''"
    by (simp add: demo_environ_expire_def)
  have i300: "demo_int ''300'' = Inr 300" by (simp add: demo_int_def table_lookup_def)
  note t1 = signing_call_arguments
    [OF demo_load_config(1) body_event_get demo_loads_simps(3) png_get png_allowed]
  note t2 = signing_call_arguments
    [OF demo_load_config(2) body_event_get demo_loads_simps(3) png_get png_allowed]
  from t1 absent have e1: "expire_seconds demo_config = 120" by simp
  from t1 have "demo_environ ''BUCKET_NAME'' = Some (bucket_name demo_config)" by simp
  then have b1: "bucket_name demo_config = ''upload-bucket''" by (simp add: demo_environ_def)
  from t2 present have "demo_int ''300'' = Inr (expire_seconds demo_config_expire)" by simp
  with i300 have e2: "expire_seconds demo_config_expire = 300" by simp
  from t2 have "demo_environ_expire ''BUCKET_NAME'' = Some (bucket_name demo_config_expire)" by simp
  then have b2: "bucket_name demo_config_expire = ''upload-bucket''"
    by (simp add: demo_environ_expire_def)
  from t1 t2 e1 e2 b1 b2 show ?thesis
    using png_allowed absent present i300
    by (simp add: body_event_get demo_loads_simps demo_load_config demo_key)
qed

text \<open>
  Claim C8. For two invocations with the same timestamp and the same content type, the
  derived keys are equal exactly when the six-character random suffixes are equal. How
  likely two suffixes are to coincide is a matter of the UUID generator, outside this
  model.
\<close>

theorem key_equal_iff_suffix_equal:
  assumes "time_now w1 = time_now w2"
  shows "derive_key w1 c = derive_key w2 c \<longleftrightarrow>
         take 6 (uuid4_str w1) = take 6 (uuid4_str w2)"
  using assms by (simp add: derive_key_def key_format_def Let_def)

theorem key_equal_iff_suffix_equal_witness:
  "time_now demo_world = time_now (demo_world\<lparr>uuid4_str := ''3f2a9d00-0000-4000-8000-000000000000''\<rparr>) \<and>
   take 6 (uuid4_str demo_world) = ''3f2a9c'' \<and>
   take 6 (uuid4_str (demo_world\<lparr>uuid4_str := ''3f2a9d00-0000-4000-8000-000000000000''\<rparr>)) = ''3f2a9d'' \<and>
   derive_key demo_world ''image/png'' \<noteq>
     derive_key (demo_world\<lparr>uuid4_str := ''3f2a9d00-0000-4000-8000-000000000000''\<rparr>) ''image/png''"
  using key_equal_iff_suffix_equal
    [of demo_world "demo_world\<lparr>uuid4_str := ''3f2a9d00-0000-4000-8000-000000000000''\<rparr>" "''image/png''"]
  by (simp add: demo_world_def)

lemma map_of_drop_key:
  "k \<noteq> x \<Longrightarrow> map_of (filter (\<lambda>(a, b). a \<noteq> x) kvs) k = map_of kvs k"
  by (induction kvs) auto

text \<open>
  Claim C9. Two invocations whose decoded bodies are the same object once the
  \<^verbatim>\<open>fileName\<close> entry is removed, in the same world (clock, UUID, decoder, encoder and
  signer), give the same response, the same signing calls and the same log.
\<close>

theorem file_name_is_ignored:
  assumes "py_get event1 ''body'' (PStr ''{}'') = Inr (PStr s1)"
    and "py_get event2 ''body'' (PStr ''{}'') = Inr (PStr s2)"
    and "json_loads w s1 = Inr (PDict d1)"
    and "json_loads w s2 = Inr (PDict d2)"
    and "filter (\<lambda>(k, v). k \<noteq> ''fileName'') d1 = filter (\<lambda>(k, v). k \<noteq> ''fileName'') d2"
  shows "lambda_handler cfg w event1 = lambda_handler cfg w event2"
proof -
  have "map_of d1 ''contentType'' =
          map_of (filter (\<lambda>(k, v). k \<noteq> ''fileName'') d1) ''contentType''"
    by (simp add: map_of_drop_key)
  also have "\<dots> = map_of (filter (\<lambda>(k, v). k \<noteq> ''fileName'') d2) ''contentType''"
    by (simp only: assms(5))
  also have "\<dots> = map_of d2 ''contentType''"
    by (simp add: map_of_drop_key)
  finally have "map_of d1 ''contentType'' = map_of d2 ''contentType''" .
  with assms(1-4) have "try_block cfg w event1 = try_block cfg w event2"
    by (simp add: try_block_def py_json_loads_def)
  then show ?thesis by (simp add: lambda_handler_def)
qed

theorem file_name_is_ignored_witness:
  \<open>json_loads demo_world ''{"contentType": "image/png"}'' =
     Inr (PDict [(''contentType'', PStr ''image/png'')]) \<and>
   json_loads demo_world ''{"contentType": "image/png", "fileName": "cat.png"}'' =
     Inr (PDict [(''contentType'', PStr ''image/png''), (''fileName'', PStr ''cat.png'')]) \<and>
   filter (\<lambda>(k, v). k \<noteq> ''fileName'') [(''contentType'', PStr ''image/png'')] =
     filter (\<lambda>(k, v). k \<noteq> ''fileName'')
       [(''contentType'', PStr ''image/png''), (''fileName'', PStr ''cat.png'')] \<and>
   lambda_handler demo_config demo_world (body_event ''{"contentType": "image/png"}'') =
     lambda_handler demo_config demo_world
       (body_event ''{"contentType": "image/png", "fileName": "cat.png"}'')\<close>
proof -
  have h5: "filter (\<lambda>(k, v). k \<noteq> ''fileName'') [(''contentType'', PStr ''image/png'')] =
     filter (\<lambda>(k, v). k \<noteq> ''fileName'')
       [(''contentType'', PStr ''image/png''), (''fileName'', PStr ''cat.png'')]" by simp
  note t = file_name_is_ignored
    [OF body_event_get body_event_get demo_loads_simps(3) demo_loads_simps(4) h5, of demo_config]
  from t h5 show ?thesis by (simp add: demo_loads_simps)
qed

end
